theory Spec2Isabelle
  imports Complex_Main
begin

section \<open>Common conventions\<close>

text \<open>
  The development embeds the three modules of gammapy that carry the algorithmic content:
  \<^verbatim>\<open>modeling/models/cube.py\<close>, \<^verbatim>\<open>makers/safe.py\<close> and
  \<^verbatim>\<open>estimators/energydependence.py\<close>.

  Quantities (energies, angles, fit statistics, map values) are modelled as real
  numbers: units are dropped and the arithmetic is exact. Where the code tests a value
  for NaN or finiteness the value has a type that can say so. Objects of the libraries
  the code calls (astropy, numpy, the fit backend, map geometries) are represented by the
  methods the code calls on them, as functions stored in records or passed as arguments.
  An exception is a value \<open>Inl e\<close> of a sum type, a normal return is \<open>Inr v\<close>.
\<close>

datatype error = ValueError | IndexError | AttributeError

section \<open>cube.py: SkyModel\<close>

text \<open>
  A spatial model is called either with \<open>(lon, lat)\<close> or with \<open>(lon, lat, energy)\<close>,
  depending on its flag \<^verbatim>\<open>is_energy_dependent\<close>. A spectral model is called on an energy
  and a temporal model on a time.
\<close>

record spatial_model =
  is_energy_dependent :: bool
  call_lon_lat :: "real \<Rightarrow> real \<Rightarrow> real"
  call_lon_lat_energy :: "real \<Rightarrow> real \<Rightarrow> real \<Rightarrow> real"

record 't sky_model =
  spectral_model :: "real \<Rightarrow> real"
  spatial_model :: "spatial_model option"
  temporal_model :: "('t \<Rightarrow> real) option"

text \<open>
  \<^verbatim>\<open>SkyModel.evaluate(self, lon, lat, energy, time=None)\<close>: the value starts as the
  spectral model at the energy, is multiplied by the spatial model when one is set, and by
  the temporal model when one is set and a time is given.
\<close>

definition evaluate :: "'t sky_model \<Rightarrow> real \<Rightarrow> real \<Rightarrow> real \<Rightarrow> 't option \<Rightarrow> real" where
  "evaluate self lon lat energy time =
     (let value = spectral_model self energy;
          value =
            (case spatial_model self of
               None \<Rightarrow> value
             | Some sm \<Rightarrow>
                 (let spatial =
                        (if is_energy_dependent sm then call_lon_lat_energy sm lon lat energy
                         else call_lon_lat sm lon lat)
                  in value * spatial));
          value =
            (case temporal_model self of
               None \<Rightarrow> value
             | Some tm \<Rightarrow> (case time of None \<Rightarrow> value | Some t \<Rightarrow> value * tm t))
      in value)"

text \<open>
  The factors of the product as the specification lists them: the spectral factor always,
  the spatial factor when a spatial model is set, the temporal factor when a temporal
  model is set and the time is not None.
\<close>

definition spatial_factor :: "'t sky_model \<Rightarrow> real \<Rightarrow> real \<Rightarrow> real \<Rightarrow> real list" where
  "spatial_factor self lon lat energy =
     (case spatial_model self of
        None \<Rightarrow> []
      | Some sm \<Rightarrow>
          [if is_energy_dependent sm then call_lon_lat_energy sm lon lat energy
           else call_lon_lat sm lon lat])"

definition temporal_factor :: "'t sky_model \<Rightarrow> 't option \<Rightarrow> real list" where
  "temporal_factor self time =
     (case temporal_model self of
        None \<Rightarrow> []
      | Some tm \<Rightarrow> (case time of None \<Rightarrow> [] | Some t \<Rightarrow> [tm t]))"

definition evaluate_factors ::
    "'t sky_model \<Rightarrow> real \<Rightarrow> real \<Rightarrow> real \<Rightarrow> 't option \<Rightarrow> real list" where
  "evaluate_factors self lon lat energy time =
     spectral_model self energy # spatial_factor self lon lat energy @ temporal_factor self time"

section \<open>cube.py: BackgroundModel\<close>

text \<open>
  A map pixel is addressed by its energy bin and its spatial pixel. A map carries the
  centres of its energy axis and its data. The spectral model of a background model is a
  norm model with the parameters \<^verbatim>\<open>norm\<close> and \<^verbatim>\<open>tilt\<close>; calling it on an energy
  evaluates the library's formula at the current parameter values, which is the function
  \<open>spectral_evaluate\<close> of the energy, the norm and the tilt.
\<close>

type_synonym pixel = "nat \<times> nat"

record sky_map =
  energy_center :: "nat \<Rightarrow> real"
  map_data :: "pixel \<Rightarrow> real"

record norm_spectral_model =
  norm_value :: real
  tilt_value :: real
  spectral_evaluate :: "real \<Rightarrow> real \<Rightarrow> real \<Rightarrow> real"

record background_model =
  bkg_map :: sky_map
  bkg_spectral_model :: norm_spectral_model

text \<open>
  \<^verbatim>\<open>BackgroundModel.evaluate\<close>: the spectral model at the centre of each energy bin
  scales the map's data; the result is a copy of the map with the scaled data.
\<close>

definition bkg_evaluate :: "background_model \<Rightarrow> sky_map" where
  "bkg_evaluate self =
     (let sm = bkg_spectral_model self;
          value = (\<lambda>e. spectral_evaluate sm (energy_center (bkg_map self) e)
                           (norm_value sm) (tilt_value sm));
          back_values = (\<lambda>(e, s). map_data (bkg_map self) (e, s) * value e)
      in (bkg_map self)\<lparr>map_data := back_values\<rparr>)"

text \<open>
  \<^verbatim>\<open>BackgroundModel.stack(self, other, weights=None)\<close>. \<^verbatim>\<open>Map.stack\<close> belongs to the
  maps package and is the argument \<open>map_stack\<close>: it returns the first map after the
  second has been stacked into it with the weights. Both models are evaluated before any
  parameter is reset. The function returns the calling model as it is after the call.
\<close>

definition stack ::
    "(sky_map \<Rightarrow> sky_map \<Rightarrow> 'w option \<Rightarrow> sky_map) \<Rightarrow>
     background_model \<Rightarrow> background_model \<Rightarrow> 'w option \<Rightarrow> background_model" where
  "stack map_stack self other weights =
     (let bkg = bkg_evaluate self;
          other_bkg = bkg_evaluate other;
          bkg = map_stack bkg other_bkg weights;
          self = self\<lparr>bkg_map := bkg\<rparr>;
          self = self\<lparr>bkg_spectral_model := (bkg_spectral_model self)\<lparr>norm_value := 1\<rparr>\<rparr>;
          self = self\<lparr>bkg_spectral_model := (bkg_spectral_model self)\<lparr>tilt_value := 0\<rparr>\<rparr>
      in self)"

section \<open>safe.py: the data the mask maker works on\<close>

text \<open>
  A mask is a boolean array over the pixels of the dataset's geometry. The masks the
  methods return are broadcast by numpy against the full shape, so a mask is modelled as
  a predicate on pixels and \<^verbatim>\<open>&=\<close> as pointwise conjunction.
\<close>

type_synonym mask = "pixel \<Rightarrow> bool"

type_synonym skycoord = "real \<times> real"

text \<open>
  A value of a background map, of which the code asks whether it is finite and whether
  it is positive.
\<close>

datatype fval = Finite real | PosInf | NegInf | NaN

fun isfinite :: "fval \<Rightarrow> bool" where
  "isfinite (Finite x) = True"
| "isfinite PosInf = False"
| "isfinite NegInf = False"
| "isfinite NaN = False"

fun gt_zero :: "fval \<Rightarrow> bool" where
  "gt_zero (Finite x) = (0 < x)"
| "gt_zero PosInf = True"
| "gt_zero NegInf = False"
| "gt_zero NaN = False"

text \<open>An element of the array that \<^verbatim>\<open>model.inverse\<close> returns: a root, or NaN.\<close>

datatype inverse_result = IsNaN | Root real

text \<open>
  The geometry of a dataset, with the methods of the maps package the mask maker calls:
  \<^verbatim>\<open>separation\<close>, \<^verbatim>\<open>energy_mask(energy_min, energy_max)\<close>, and, of the axis
  \<^verbatim>\<open>axes["energy"]\<close>, \<^verbatim>\<open>edges\<close> and \<^verbatim>\<open>pix_to_coord\<close>.
\<close>

record geom =
  center_skydir :: skycoord
  separation :: "skycoord \<Rightarrow> pixel \<Rightarrow> real"
  energy_mask :: "real option \<Rightarrow> real option \<Rightarrow> mask"
  axis_edges :: "real list"
  pix_to_coord :: "nat \<Rightarrow> real"

text \<open>
  An energy dispersion kernel is used through \<^verbatim>\<open>get_bias_energy\<close> only. The dataset's
  energy dispersion is an \<^verbatim>\<open>EDispKernelMap\<close>, whose \<^verbatim>\<open>get_edisp_kernel\<close> takes a
  position, or another map, whose \<^verbatim>\<open>get_edisp_kernel\<close> takes a position and the
  reconstructed-energy edges.
\<close>

type_synonym edisp_kernel = "real \<Rightarrow> real list"

datatype edisp =
    EDispKernelMap "skycoord option \<Rightarrow> edisp_kernel"
  | EDispMap "skycoord option \<Rightarrow> real list \<Rightarrow> edisp_kernel"

text \<open>
  The dataset: its geometry \<^verbatim>\<open>_geom\<close>; of its exposure, \<^verbatim>\<open>get_spectrum(position)\<close>,
  the nodes of the true-energy axis of that spectrum and \<^verbatim>\<open>meta["livetime"]\<close>; its
  energy dispersion; the data of its background map (or None); its \<^verbatim>\<open>stat_type\<close>; the
  data of \<^verbatim>\<open>npred_background().get_spectrum()\<close>; and its safe mask.
\<close>

record dataset =
  ds_geom :: geom
  exposure_get_spectrum :: "skycoord \<Rightarrow> real list"
  exposure_energy_true :: "real list"
  exposure_livetime :: real
  ds_edisp :: edisp
  background :: "(pixel \<Rightarrow> fval) option"
  stat_type :: string
  npred_background_spectrum :: "real list"
  mask_safe :: "mask option"

text \<open>
  The observation: its identifier, its pointing position, the method
  \<^verbatim>\<open>directional_offset_by(position_angle, separation)\<close> of that position, and the
  dictionary \<^verbatim>\<open>aeff.meta\<close>.
\<close>

record observation =
  obs_id :: nat
  pointing_radec :: skycoord
  directional_offset_by :: "real \<Rightarrow> real \<Rightarrow> skycoord"
  aeff_meta :: "string \<rightharpoonup> real"

text \<open>
  The maker. An attribute that the code tests for truth (\<^verbatim>\<open>if self.position\<close>,
  \<^verbatim>\<open>if self.fixed_offset\<close>) is an option: None is Python's None, and a sky position or an
  angle that is set counts as true.
\<close>

record safe_mask_maker =
  methods :: "string set"
  aeff_percent :: real
  bias_percent :: real
  position :: "skycoord option"
  fixed_offset :: "real option"
  offset_max :: real

definition available_methods :: "string set" where
  "available_methods =
     {''aeff-default'', ''aeff-max'', ''edisp-bias'', ''offset-max'', ''bkg-peak''}"

section \<open>safe.py: SafeMaskMaker\<close>

text \<open>
  \<^verbatim>\<open>SafeMaskMaker.__init__\<close>. The constructor \<^verbatim>\<open>Angle\<close> of astropy parses the maximum
  offset; it is the argument \<open>Angle\<close>, and an exception it raises leaves the constructor.
\<close>

definition init ::
    "('raw \<Rightarrow> error + real) \<Rightarrow> string list \<Rightarrow> real \<Rightarrow> real \<Rightarrow> skycoord option \<Rightarrow>
     real option \<Rightarrow> 'raw \<Rightarrow> error + safe_mask_maker" where
  "init Angle methods_arg aeff_percent_arg bias_percent_arg position_arg fixed_offset_arg
        offset_max_arg =
     (let ms = set methods_arg in
      if \<not> ms \<subseteq> available_methods then Inl ValueError
      else
        (case Angle offset_max_arg of
           Inl e \<Rightarrow> Inl e
         | Inr om \<Rightarrow>
             if position_arg \<noteq> None \<and> fixed_offset_arg \<noteq> None then Inl ValueError
             else
               Inr \<lparr>methods = ms, aeff_percent = aeff_percent_arg,
                    bias_percent = bias_percent_arg, position = position_arg,
                    fixed_offset = fixed_offset_arg, offset_max = om\<rparr>))"

text \<open>\<^verbatim>\<open>make_mask_offset_max(self, dataset, observation)\<close>.\<close>

definition make_mask_offset_max ::
    "safe_mask_maker \<Rightarrow> dataset \<Rightarrow> observation option \<Rightarrow> error + mask" where
  "make_mask_offset_max self dataset observation =
     (case observation of
        None \<Rightarrow> Inl ValueError
      | Some obs \<Rightarrow>
          Inr (\<lambda>p. separation (ds_geom dataset) (pointing_radec obs) p < offset_max self))"

text \<open>
  \<^verbatim>\<open>make_mask_energy_aeff_default(dataset, observation)\<close>: a missing key of the
  dictionary sets both thresholds to None.
\<close>

definition make_mask_energy_aeff_default ::
    "dataset \<Rightarrow> observation option \<Rightarrow> error + mask" where
  "make_mask_energy_aeff_default dataset observation =
     (case observation of
        None \<Rightarrow> Inl ValueError
      | Some obs \<Rightarrow>
          (let (energy_min, energy_max) =
                 (case aeff_meta obs ''HI_THRES'' of
                    None \<Rightarrow> (None, None)
                  | Some hi \<Rightarrow>
                      (case aeff_meta obs ''LO_THRES'' of
                         None \<Rightarrow> (None, None)
                       | Some lo \<Rightarrow> (Some lo, Some hi)))
           in Inr (energy_mask (ds_geom dataset) energy_min energy_max)))"

text \<open>
  The position at which \<^verbatim>\<open>make_mask_energy_aeff_max\<close> reads the effective area: the
  pointing moved by the fixed offset (for which the observation is mandatory), else the
  maker's position, else the centre of the geometry.
\<close>

definition aeff_max_position ::
    "safe_mask_maker \<Rightarrow> dataset \<Rightarrow> observation option \<Rightarrow> error + skycoord" where
  "aeff_max_position self dataset observation =
     (case fixed_offset self of
        Some fo \<Rightarrow>
          (case observation of
             Some obs \<Rightarrow> Inr (directional_offset_by obs 0 fo)
           | None \<Rightarrow> Inl ValueError)
      | None \<Rightarrow>
          (case position self of
             Some pos \<Rightarrow> Inr pos
           | None \<Rightarrow> Inr (center_skydir (ds_geom dataset))))"

text \<open>
  \<^verbatim>\<open>np.where(values > 0)[0][0]\<close>: the index of the first positive value, and an
  IndexError when there is none.
\<close>

fun first_positive_from :: "nat \<Rightarrow> real list \<Rightarrow> error + nat" where
  "first_positive_from i [] = Inl IndexError"
| "first_positive_from i (v # vs) = (if 0 < v then Inr i else first_positive_from (Suc i) vs)"

definition first_positive :: "real list \<Rightarrow> error + nat" where
  "first_positive vs = first_positive_from 0 vs"

text \<open>Indexing an array: an IndexError out of range.\<close>

definition index :: "'a list \<Rightarrow> nat \<Rightarrow> error + 'a" where
  "index xs i = (if i < length xs then Inr (xs ! i) else Inl IndexError)"

text \<open>The maximum of a non-empty array, and a ValueError on an empty one.\<close>

definition array_max :: "real list \<Rightarrow> error + real" where
  "array_max xs = (case xs of [] \<Rightarrow> Inl ValueError | x # rest \<Rightarrow> Inr (fold max rest x))"

text \<open>Sequencing of two steps of which the first may raise.\<close>

definition and_then :: "error + 'a \<Rightarrow> ('a \<Rightarrow> error + 'b) \<Rightarrow> error + 'b" where
  "and_then r f = (case r of Inl e \<Rightarrow> Inl e | Inr v \<Rightarrow> f v)"

text \<open>
  \<^verbatim>\<open>make_mask_energy_aeff_max(self, dataset, observation=None)\<close>. The template model's
  method \<^verbatim>\<open>inverse(value, energy_min, energy_max)\<close> is the argument \<open>model_inverse\<close>, which
  also receives the energies and the values of the template.
\<close>

definition make_mask_energy_aeff_max ::
    "(real list \<Rightarrow> real list \<Rightarrow> real \<Rightarrow> real \<Rightarrow> real \<Rightarrow> inverse_result list) \<Rightarrow>
     safe_mask_maker \<Rightarrow> dataset \<Rightarrow> observation option \<Rightarrow> error + mask" where
  "make_mask_energy_aeff_max model_inverse self dataset observation =
     and_then (aeff_max_position self dataset observation) (\<lambda>pos.
       let aeff = map (\<lambda>x. x / exposure_livetime dataset) (exposure_get_spectrum dataset pos);
           energy_true = exposure_energy_true dataset
       in
       and_then (first_positive aeff) (\<lambda>i.
       and_then (index energy_true i) (\<lambda>energy_min.
       and_then (index energy_true 0) (\<lambda>energy_max.
       and_then (array_max aeff) (\<lambda>aeff_max.
         let aeff_thres = (aeff_percent self / 100) * aeff_max;
             inversion = model_inverse energy_true aeff aeff_thres energy_min energy_max
         in
         and_then (index inversion 0) (\<lambda>inv0.
           let energy_min = (case inv0 of IsNaN \<Rightarrow> energy_min | Root r \<Rightarrow> r)
           in Inr (energy_mask (ds_geom dataset) (Some energy_min) None)))))))"

text \<open>\<^verbatim>\<open>make_mask_energy_edisp_bias(self, dataset, observation=None)\<close>.\<close>

definition make_mask_energy_edisp_bias ::
    "safe_mask_maker \<Rightarrow> dataset \<Rightarrow> observation option \<Rightarrow> error + mask" where
  "make_mask_energy_edisp_bias self dataset observation =
     and_then
       (case fixed_offset self of
          Some fo \<Rightarrow>
            (case observation of
               Some obs \<Rightarrow> Inr (Some (directional_offset_by obs 0 fo))
             | None \<Rightarrow> Inl ValueError)
        | None \<Rightarrow> Inr None)
       (\<lambda>pos.
          let kernel =
                (case ds_edisp dataset of
                   EDispKernelMap get_edisp_kernel \<Rightarrow>
                     (case pos of
                        Some p \<Rightarrow> get_edisp_kernel (Some p)
                      | None \<Rightarrow> get_edisp_kernel (position self))
                 | EDispMap get_edisp_kernel \<Rightarrow>
                     (case pos of
                        Some p \<Rightarrow> get_edisp_kernel (Some p) (axis_edges (ds_geom dataset))
                      | None \<Rightarrow>
                          get_edisp_kernel (position self) (axis_edges (ds_geom dataset))));
              energy_min = kernel (bias_percent self / 100)
          in
          and_then (index energy_min 0) (\<lambda>e0.
            Inr (energy_mask (ds_geom dataset) (Some e0) None)))"

text \<open>
  \<^verbatim>\<open>np.argmax\<close>: the index of the first occurrence of the maximum; a ValueError on an
  empty array. The scan keeps the best index so far and moves on a strictly larger value.
\<close>

fun argmax_from :: "nat \<Rightarrow> real \<Rightarrow> nat \<Rightarrow> real list \<Rightarrow> nat" where
  "argmax_from best_i best i [] = best_i"
| "argmax_from best_i best i (x # xs) =
     (if best < x then argmax_from i x (Suc i) xs else argmax_from best_i best (Suc i) xs)"

definition argmax :: "real list \<Rightarrow> error + nat" where
  "argmax xs = (case xs of [] \<Rightarrow> Inl ValueError | x # rest \<Rightarrow> Inr (argmax_from 0 x 1 rest))"

text \<open>\<^verbatim>\<open>make_mask_energy_bkg_peak(dataset)\<close>.\<close>

definition make_mask_energy_bkg_peak :: "dataset \<Rightarrow> error + mask" where
  "make_mask_energy_bkg_peak dataset =
     and_then (argmax (npred_background_spectrum dataset)) (\<lambda>idx.
       let energy_min = pix_to_coord (ds_geom dataset) idx
       in Inr (energy_mask (ds_geom dataset) (Some energy_min) None))"

text \<open>
  \<^verbatim>\<open>make_mask_bkg_invalid(dataset)\<close>: the finite values, and unless the statistic is
  \<^verbatim>\<open>wstat\<close> only the positive ones. Reading \<^verbatim>\<open>.data\<close> of a background that is None is
  an AttributeError.
\<close>

definition make_mask_bkg_invalid :: "dataset \<Rightarrow> error + mask" where
  "make_mask_bkg_invalid dataset =
     (case background dataset of
        None \<Rightarrow> Inl AttributeError
      | Some bkg \<Rightarrow>
          (let mask = (\<lambda>p. isfinite (bkg p));
               mask = (if \<not> stat_type dataset = ''wstat''
                       then (\<lambda>p. mask p \<and> gt_zero (bkg p)) else mask)
           in Inr mask))"

text \<open>One step of \<^verbatim>\<open>run\<close>: \<^verbatim>\<open>if cond: mask_safe &= make_mask(...)\<close>.\<close>

definition and_mask_if :: "bool \<Rightarrow> error + mask \<Rightarrow> mask \<Rightarrow> error + mask" where
  "and_mask_if cond made mask_safe_acc =
     (if cond then and_then made (\<lambda>m. Inr (\<lambda>p. mask_safe_acc p \<and> m p)) else Inr mask_safe_acc)"

text \<open>
  \<^verbatim>\<open>SafeMaskMaker.run(self, dataset, observation=None)\<close>. The calls of
  \<^verbatim>\<open>make_mask_energy_aeff_max\<close> and \<^verbatim>\<open>make_mask_energy_edisp_bias\<close> pass the dataset
  only, so their observation is the default None.
\<close>

definition run ::
    "(real list \<Rightarrow> real list \<Rightarrow> real \<Rightarrow> real \<Rightarrow> real \<Rightarrow> inverse_result list) \<Rightarrow>
     safe_mask_maker \<Rightarrow> dataset \<Rightarrow> observation option \<Rightarrow> error + dataset" where
  "run model_inverse self dataset observation =
     and_then (and_mask_if (background dataset \<noteq> None)
                 (make_mask_bkg_invalid dataset) (\<lambda>p. True)) (\<lambda>mask_safe1.
     and_then (and_mask_if (''offset-max'' \<in> methods self)
                 (make_mask_offset_max self dataset observation) mask_safe1) (\<lambda>mask_safe2.
     and_then (and_mask_if (''aeff-default'' \<in> methods self)
                 (make_mask_energy_aeff_default dataset observation) mask_safe2) (\<lambda>mask_safe3.
     and_then (and_mask_if (''aeff-max'' \<in> methods self)
                 (make_mask_energy_aeff_max model_inverse self dataset None) mask_safe3) (\<lambda>mask_safe4.
     and_then (and_mask_if (''edisp-bias'' \<in> methods self)
                 (make_mask_energy_edisp_bias self dataset None) mask_safe4) (\<lambda>mask_safe5.
     and_then (and_mask_if (''bkg-peak'' \<in> methods self)
                 (make_mask_energy_bkg_peak dataset) mask_safe5) (\<lambda>mask_safe6.
       Inr (dataset\<lparr>mask_safe := Some mask_safe6\<rparr>)))))))"

text \<open>
  The mask a method produces when \<^verbatim>\<open>run\<close> calls it, by the method's name, and the
  methods in the order in which \<^verbatim>\<open>run\<close> looks at them.
\<close>

definition method_mask ::
    "(real list \<Rightarrow> real list \<Rightarrow> real \<Rightarrow> real \<Rightarrow> real \<Rightarrow> inverse_result list) \<Rightarrow>
     safe_mask_maker \<Rightarrow> dataset \<Rightarrow> observation option \<Rightarrow> string \<Rightarrow> error + mask" where
  "method_mask model_inverse self dataset observation name =
     (if name = ''offset-max'' then make_mask_offset_max self dataset observation
      else if name = ''aeff-default'' then make_mask_energy_aeff_default dataset observation
      else if name = ''aeff-max'' then make_mask_energy_aeff_max model_inverse self dataset None
      else if name = ''edisp-bias'' then make_mask_energy_edisp_bias self dataset None
      else make_mask_energy_bkg_peak dataset)"

definition method_order :: "string list" where
  "method_order = [''offset-max'', ''aeff-default'', ''aeff-max'', ''edisp-bias'', ''bkg-peak'']"

text \<open>
  The safe mask the specification describes: a pixel is safe when the invalid-background
  mask keeps it (if the dataset has a background) and every selected method's mask
  keeps it.
\<close>

definition selected_conjunction ::
    "(real list \<Rightarrow> real list \<Rightarrow> real \<Rightarrow> real \<Rightarrow> real \<Rightarrow> inverse_result list) \<Rightarrow>
     safe_mask_maker \<Rightarrow> dataset \<Rightarrow> observation option \<Rightarrow> mask" where
  "selected_conjunction model_inverse self dataset observation =
     (\<lambda>p. (case background dataset of
              None \<Rightarrow> True
            | Some bkg \<Rightarrow> projr (make_mask_bkg_invalid dataset) p) \<and>
          list_all (\<lambda>name. name \<in> methods self \<longrightarrow>
                      projr (method_mask model_inverse self dataset observation name) p)
            method_order)"

text \<open>A result that is a normal return or the exception ValueError.\<close>

definition only_ValueError :: "error + 'a \<Rightarrow> bool" where
  "only_ValueError r = (case r of Inl e \<Rightarrow> e = ValueError | Inr _ \<Rightarrow> True)"

section \<open>energydependence.py: EnergyDependenceEstimator\<close>

text \<open>
  The result of a fit, as far as the estimator reads it: \<^verbatim>\<open>total_stat\<close>,
  \<^verbatim>\<open>parameters.free_parameters.names\<close>, and the value and the error of a parameter by
  its name. The result of a nested test is a dictionary with the keys \<^verbatim>\<open>ts\<close> and
  \<^verbatim>\<open>fit_results\<close>.
\<close>

record fit_result =
  total_stat :: real
  free_parameter_names :: "string list"
  parameter_value :: "string \<Rightarrow> real"
  parameter_error :: "string \<Rightarrow> real"

record test_result =
  ts :: real
  fit_results :: fit_result

text \<open>
  What the estimator calls outside the module, for datasets of type \<open>'d\<close> and energy
  slices of type \<open>'s\<close>:
  \<^item> \<open>set_mask_fit e d\<close>: the dataset after
    \<^verbatim>\<open>d.mask_fit = d.counts.geom.energy_mask(energy_min=e, energy_max=None)\<close>;
  \<^item> \<open>spatial_parameter_names source datasets\<close>: the names of the free parameters of the
    spatial model of \<^verbatim>\<open>datasets.models[source]\<close>;
  \<^item> \<open>slice_by_energy d emin emax\<close>: the slice of the dataset, with a copy of the source
    model and a new field-of-view background model as its models;
  \<^item> \<open>fit_run s\<close>: \<^verbatim>\<open>self.fit.run\<close> on one slice;
  \<^item> \<open>fit_run_joint parameters slices\<close>: \<^verbatim>\<open>self.fit.run\<close> on all slices, after the
    named spatial parameters of every later slice have been tied to those of the first;
  \<^item> \<open>joint_free_parameter_names parameters slices\<close>: the names of the free parameters of
    the slices tied in that way;
  \<^item> \<open>test_run s\<close>: the nested test of the source against the background on one slice;
  \<^item> \<open>ts_to_sigma\<close>: the significance of a test statistic for a number of degrees of
    freedom, which the library applies to an array element by element.
\<close>

record ('d, 's) backend =
  set_mask_fit :: "real \<Rightarrow> 'd \<Rightarrow> 'd"
  spatial_parameter_names :: "string \<Rightarrow> 'd list \<Rightarrow> string list"
  slice_by_energy :: "'d \<Rightarrow> real \<Rightarrow> real \<Rightarrow> 's"
  fit_run :: "'s \<Rightarrow> fit_result"
  fit_run_joint :: "string list \<Rightarrow> 's list \<Rightarrow> fit_result"
  joint_free_parameter_names :: "string list \<Rightarrow> 's list \<Rightarrow> string list"
  test_run :: "'s \<Rightarrow> test_result"
  ts_to_sigma :: "real \<Rightarrow> int \<Rightarrow> real"

record estimator =
  energy_edges :: "real list"
  source :: string

text \<open>\<^verbatim>\<open>self.num_energy_bands\<close>, which \<^verbatim>\<open>__init__\<close> sets to \<^verbatim>\<open>len(energy_edges) - 1\<close>.\<close>

definition num_energy_bands :: "estimator \<Rightarrow> int" where
  "num_energy_bands self = int (length (energy_edges self)) - 1"

record energy_table =
  hypothesis :: "string list"
  emin :: "real list"
  emax :: "real list"
  columns :: "(string \<times> real list) list"

record energy_dependence_result =
  delta_ts :: real
  df :: int
  result :: energy_table

record source_significance_result =
  src_emin :: "real list"
  src_emax :: "real list"
  src_delta_ts :: "real list"
  src_df :: "int list"
  src_significance :: "real list"

text \<open>
  The first loop of both estimates: every dataset gets its fit mask from the first energy
  edge. With no dataset the loop body, and its read of \<^verbatim>\<open>energy_edges[0]\<close>, never runs.
\<close>

definition set_mask_fit_all ::
    "('d, 's) backend \<Rightarrow> estimator \<Rightarrow> 'd list \<Rightarrow> error + 'd list" where
  "set_mask_fit_all be self datasets =
     (case datasets of
        [] \<Rightarrow> Inr []
      | _ # _ \<Rightarrow>
          (case energy_edges self of
             [] \<Rightarrow> Inl IndexError
           | e0 # _ \<Rightarrow> Inr (map (set_mask_fit be e0) datasets)))"

text \<open>
  The slices: for each pair of neighbouring edges, in order, one slice of each dataset,
  in order.
\<close>

definition make_slices :: "('d, 's) backend \<Rightarrow> estimator \<Rightarrow> 'd list \<Rightarrow> 's list" where
  "make_slices be self datasets =
     concat (map (\<lambda>(emin, emax). map (\<lambda>dataset. slice_by_energy be dataset emin emax) datasets)
                 (zip (butlast (energy_edges self)) (tl (energy_edges self))))"

text \<open>
  \<^verbatim>\<open>free_x, free_y = np.shape(rows)\<close> for a list of lists of names: the shape has two
  entries when there is a row and all rows have one length; otherwise numpy raises or
  the unpacking does, a ValueError in both cases.
\<close>

fun np_shape2 :: "'a list list \<Rightarrow> error + (nat \<times> nat)" where
  "np_shape2 [] = Inl ValueError"
| "np_shape2 (r # rs) =
     (if list_all (\<lambda>r'. length r' = length r) rs then Inr (Suc (length rs), length r)
      else Inl ValueError)"

text \<open>
  The table of \<^verbatim>\<open>estimate_energy_dependence\<close>: the first row is the joint fit, then one
  row for each of the first \<^verbatim>\<open>num_energy_bands\<close> sliced fits. The arrays of per-band
  values are allocated with \<^verbatim>\<open>num_energy_bands\<close> columns (a ValueError if that is
  negative) and filled from \<^verbatim>\<open>results_src[i]\<close> (an IndexError if there are fewer).
\<close>

definition make_table ::
    "estimator \<Rightarrow> string list \<Rightarrow> fit_result \<Rightarrow> fit_result list \<Rightarrow> error + energy_table" where
  "make_table self parameters result_joint results_src =
     (let joint_values = map (parameter_value result_joint) parameters;
          joint_errors = map (parameter_error result_joint) parameters
      in
      if num_energy_bands self < 0 then Inl ValueError
      else if length results_src < nat (num_energy_bands self) then Inl IndexError
      else
        (let bands = take (nat (num_energy_bands self)) results_src;
             parameter_values = map (\<lambda>param. map (\<lambda>r. parameter_value r param) bands) parameters;
             parameter_errors = map (\<lambda>param. map (\<lambda>r. parameter_error r param) bands) parameters
         in
         (case energy_edges self of
            [] \<Rightarrow> Inl IndexError
          | e0 # _ \<Rightarrow>
              Inr \<lparr>hypothesis = ''H0'' # replicate (nat (num_energy_bands self)) ''H1'',
                   emin = e0 # butlast (energy_edges self),
                   emax = last (energy_edges self) # tl (energy_edges self),
                   columns =
                     concat (map (\<lambda>i.
                         [(parameters ! i, (joint_values ! i) # (parameter_values ! i)),
                          (parameters ! i @ ''_err'', (joint_errors ! i) # (parameter_errors ! i))])
                       [0..<length parameters])\<rparr>)))"

text \<open>
  \<^verbatim>\<open>estimate_energy_dependence(self, datasets)\<close>. The function returns the datasets as
  the first loop leaves them, and the dictionary of results.
\<close>

definition estimate_energy_dependence ::
    "('d, 's) backend \<Rightarrow> estimator \<Rightarrow> 'd list \<Rightarrow>
     error + ('d list \<times> energy_dependence_result)" where
  "estimate_energy_dependence be self datasets =
     and_then (set_mask_fit_all be self datasets) (\<lambda>datasets.
       let slices_src = make_slices be self datasets;
           results_src = map (fit_run be) slices_src;
           results_src_total_stat = map total_stat results_src
       in
       and_then (np_shape2 (map free_parameter_names results_src)) (\<lambda>(free_x, free_y).
         let df_src = int free_x * int free_y;
             parameters = spatial_parameter_names be (source self) datasets;
             result_joint = fit_run_joint be parameters slices_src;
             delta_ts_joint = total_stat result_joint - sum_list results_src_total_stat;
             df_joint = int (length (joint_free_parameter_names be parameters slices_src));
             df = df_src - df_joint
         in
         and_then (make_table self parameters result_joint results_src) (\<lambda>result.
           Inr (datasets, \<lparr>delta_ts = delta_ts_joint, df = df, result = result\<rparr>))))"

text \<open>\<^verbatim>\<open>estimate_source_significance(self, datasets)\<close>.\<close>

definition estimate_source_significance ::
    "('d, 's) backend \<Rightarrow> estimator \<Rightarrow> 'd list \<Rightarrow>
     error + ('d list \<times> source_significance_result)" where
  "estimate_source_significance be self datasets =
     and_then (set_mask_fit_all be self datasets) (\<lambda>datasets.
       let slices_src = make_slices be self datasets;
           test_results = map (test_run be) slices_src;
           delta_ts_bkg_src = map ts test_results;
           df_src = map (\<lambda>r. int (length (free_parameter_names (fit_results r)))) test_results;
           df_bkg = 1
       in
       and_then (index df_src 0) (\<lambda>df_src0.
         let df_bkg_src = df_src0 - df_bkg;
             sigma_ts_bkg_src = map (\<lambda>t. ts_to_sigma be t df_bkg_src) delta_ts_bkg_src
         in
         Inr (datasets,
              \<lparr>src_emin = butlast (energy_edges self),
               src_emax = tl (energy_edges self),
               src_delta_ts = delta_ts_bkg_src,
               src_df = replicate (nat (num_energy_bands self)) df_bkg_src,
               src_significance = sigma_ts_bkg_src\<rparr>)))"

text \<open>
  \<^verbatim>\<open>run(self, dataset)\<close>: the argument is a \<^verbatim>\<open>Datasets\<close> instance or any other object.
  The returned dictionary is the list of its items in insertion order.
\<close>

datatype ('d, 'x) run_input = Datasets "'d list" | NotDatasets 'x

datatype run_value =
    EnergyDependence energy_dependence_result
  | SrcAboveBkg source_significance_result

definition run_estimator ::
    "('d, 's) backend \<Rightarrow> estimator \<Rightarrow> ('d, 'x) run_input \<Rightarrow>
     error + (string \<times> run_value) list" where
  "run_estimator be self dataset =
     (case dataset of
        NotDatasets x \<Rightarrow> Inl ValueError
      | Datasets datasets \<Rightarrow>
          and_then (estimate_energy_dependence be self datasets) (\<lambda>(datasets, results).
          and_then (estimate_source_significance be self datasets) (\<lambda>(datasets, significance).
            Inr [(''energy_dependence'', EnergyDependence results),
                 (''src_above_bkg'', SrcAboveBkg significance)])))"

section \<open>Example objects\<close>

text \<open>
  A geometry with three energy bins between the edges 1, 2, 4 and 8, whose bin centres are
  3/2, 3 and 6; the spatial pixel \<open>s\<close> lies \<open>s\<close> degrees from any position; the energy
  mask keeps the bins whose lower edge is at least the minimum and whose upper edge is at
  most the maximum.
\<close>

definition example_geom :: geom where
  "example_geom =
     \<lparr>center_skydir = (0, 0),
      separation = (\<lambda>pos (j, s). real s),
      energy_mask = (\<lambda>energy_min energy_max (j, s).
         (case energy_min of None \<Rightarrow> True | Some e \<Rightarrow> e \<le> [1, 2, 4, 8] ! j) \<and>
         (case energy_max of None \<Rightarrow> True | Some e \<Rightarrow> [1, 2, 4, 8] ! Suc j \<le> e)),
      axis_edges = [1, 2, 4, 8],
      pix_to_coord = (\<lambda>i. [3 / 2, 3, 6] ! i)\<rparr>"

definition example_dataset :: dataset where
  "example_dataset =
     \<lparr>ds_geom = example_geom,
      exposure_get_spectrum = (\<lambda>pos. [0, 10, 40]),
      exposure_energy_true = [3 / 2, 3, 6],
      exposure_livetime = 10,
      ds_edisp = EDispKernelMap (\<lambda>pos bias. [2]),
      background = Some (\<lambda>(j, s). if s = 2 then NaN else Finite 1),
      stat_type = ''cash'',
      npred_background_spectrum = [5, 7, 7],
      mask_safe = None\<rparr>"

definition example_observation :: observation where
  "example_observation =
     \<lparr>obs_id = 1, pointing_radec = (0, 0),
      directional_offset_by = (\<lambda>position_angle sep. (0, sep)),
      aeff_meta = Map.empty\<rparr>"

definition example_inverse ::
    "real list \<Rightarrow> real list \<Rightarrow> real \<Rightarrow> real \<Rightarrow> real \<Rightarrow> inverse_result list" where
  "example_inverse energy vals value energy_min energy_max =
     [if value = 2 / 5 \<and> energy_min = 3 \<and> energy_max = 3 / 2 then Root 2 else IsNaN]"

definition example_Angle :: "string \<Rightarrow> error + real" where
  "example_Angle s = (if s = ''3 deg'' then Inr 3 else Inl ValueError)"

definition example_maker :: safe_mask_maker where
  "example_maker =
     \<lparr>methods = {''offset-max'', ''bkg-peak''}, aeff_percent = 10, bias_percent = 10,
      position = None, fixed_offset = None, offset_max = 3\<rparr>"

definition example_offset_maker :: safe_mask_maker where
  "example_offset_maker =
     \<lparr>methods = {''aeff-max''}, aeff_percent = 10, bias_percent = 10,
      position = None, fixed_offset = Some 1, offset_max = 3\<rparr>"

text \<open>
  A backend over datasets and slices that are numbered: dataset \<open>d\<close> sliced in the band
  from \<open>emin\<close> is the slice \<open>(d, emin)\<close>; the fit of a slice has the statistic 3 for
  dataset 1 and 4 for any other, and two free parameters; the joint fit has the statistic
  10 and three free parameters.
\<close>

definition example_fit :: "real \<Rightarrow> fit_result" where
  "example_fit stat =
     \<lparr>total_stat = stat, free_parameter_names = [''sigma'', ''norm''],
      parameter_value = (\<lambda>name. 1), parameter_error = (\<lambda>name. 1 / 10)\<rparr>"

definition example_backend :: "(nat, nat \<times> real) backend" where
  "example_backend =
     \<lparr>set_mask_fit = (\<lambda>e d. d),
      spatial_parameter_names = (\<lambda>src ds. [''sigma'']),
      slice_by_energy = (\<lambda>d e1 e2. (d, e1)),
      fit_run = (\<lambda>(d, e). example_fit (if d = 1 then 3 else 4)),
      fit_run_joint = (\<lambda>parameters slices. example_fit 10),
      joint_free_parameter_names = (\<lambda>parameters slices. [''sigma'', ''norm'', ''norm'']),
      test_run = (\<lambda>(d, e). \<lparr>ts = 25, fit_results = example_fit 4\<rparr>),
      ts_to_sigma = (\<lambda>t dof. t / 5)\<rparr>"

definition example_estimator :: estimator where
  "example_estimator = \<lparr>energy_edges = [1, 10], source = ''source''\<rparr>"

text \<open>
  A backend whose nested tests differ from band to band: in the band that starts at 1 the
  test has the statistic 24 plus the number of the dataset, and its fit has three free
  parameters; in any other band the statistic is 10 plus the number of the dataset, and
  the fit has five free parameters. The significance depends on the degrees of freedom:
  it is the statistic divided by them. The estimator has the two bands from 1 to 10 and
  from 10 to 100.
\<close>

definition example_band_fit :: "real \<Rightarrow> fit_result" where
  "example_band_fit e =
     \<lparr>total_stat = 0,
      free_parameter_names =
        (if e = 1 then [''sigma'', ''index'', ''norm'']
         else [''sigma'', ''index'', ''amplitude'', ''lon_0'', ''norm'']),
      parameter_value = (\<lambda>name. 1), parameter_error = (\<lambda>name. 1 / 10)\<rparr>"

definition example_band_backend :: "(nat, nat \<times> real) backend" where
  "example_band_backend =
     \<lparr>set_mask_fit = (\<lambda>e d. d),
      spatial_parameter_names = (\<lambda>src ds. [''sigma'']),
      slice_by_energy = (\<lambda>d e1 e2. (d, e1)),
      fit_run = (\<lambda>(d, e). example_band_fit e),
      fit_run_joint = (\<lambda>parameters slices. example_band_fit 1),
      joint_free_parameter_names = (\<lambda>parameters slices. [''sigma'', ''norm'']),
      test_run = (\<lambda>(d, e). \<lparr>ts = (if e = 1 then 24 else 10) + real d,
                              fit_results = example_band_fit e\<rparr>),
      ts_to_sigma = (\<lambda>t dof. t / real_of_int dof)\<rparr>"

definition example_band_estimator :: estimator where
  "example_band_estimator = \<lparr>energy_edges = [1, 10, 100], source = ''source''\<rparr>"

section \<open>Theorems about cube.py\<close>

text \<open>
  C6. For every lon, lat, energy and time, \<^verbatim>\<open>SkyModel.evaluate\<close> returns the factorised
  product: the spectral model at the energy, times the spatial model at \<open>(lon, lat)\<close>
  (or at \<open>(lon, lat, energy)\<close> when the spatial model is energy dependent) when a spatial
  model is set, times the temporal model at the time when a temporal model is set and the
  time is not None; a factor whose condition fails is left out of the product.
\<close>

theorem evaluate_factorised_product:
  "evaluate self lon lat energy time = prod_list (evaluate_factors self lon lat energy time)"
  by (simp add: evaluate_def evaluate_factors_def spatial_factor_def temporal_factor_def
      split: option.split)

text \<open>
  C10. For every pair of background models, after \<^verbatim>\<open>stack(other)\<close> the calling model
  has norm 1 and tilt 0, and its map is the stacked combination of the two evaluated
  maps, each of which holds the model's map data scaled, bin by bin, by its spectral model
  at its own norm and tilt.
\<close>

theorem stack_resets_parameters_and_stacks_evaluated_maps:
  "norm_value (bkg_spectral_model (stack map_stack self other weights)) = 1 \<and>
   tilt_value (bkg_spectral_model (stack map_stack self other weights)) = 0 \<and>
   bkg_map (stack map_stack self other weights) =
     map_stack (bkg_evaluate self) (bkg_evaluate other) weights \<and>
   (\<forall>m e s. map_data (bkg_evaluate m) (e, s) =
      map_data (bkg_map m) (e, s) *
      spectral_evaluate (bkg_spectral_model m) (energy_center (bkg_map m) e)
        (norm_value (bkg_spectral_model m)) (tilt_value (bkg_spectral_model m))) \<and>
   (\<forall>m. energy_center (bkg_evaluate m) = energy_center (bkg_map m))"
  by (simp add: stack_def bkg_evaluate_def Let_def)

section \<open>Shared lemmas\<close>

text \<open>
  Sequencing, indexing and the scans over arrays, as the theorems below use them.
\<close>

lemma and_then_Inr [simp]: "and_then (Inr v) f = f v"
  by (simp add: and_then_def)

lemma and_then_Inl [simp]: "and_then (Inl e) f = Inl e"
  by (simp add: and_then_def)

lemma and_then_only_ValueError:
  "only_ValueError r \<Longrightarrow> (\<And>v. f v = Inl ValueError) \<Longrightarrow> and_then r f = Inl ValueError"
  by (cases r) (simp_all add: only_ValueError_def)

lemma and_mask_if_only_ValueError:
  "only_ValueError made \<Longrightarrow> only_ValueError (and_mask_if c made acc)"
  by (cases made) (simp_all add: only_ValueError_def and_mask_if_def)

lemma and_mask_if_cases:
  "and_mask_if c made acc =
     (if c then (case made of Inl e \<Rightarrow> Inl e | Inr m \<Rightarrow> Inr (\<lambda>p. acc p \<and> (c \<longrightarrow> projr made p)))
      else Inr (\<lambda>p. acc p \<and> (c \<longrightarrow> projr made p)))"
  by (auto simp: and_mask_if_def split: sum.splits)

lemma first_positive_from_spec:
  "i0 < length vs \<Longrightarrow> 0 < vs ! i0 \<Longrightarrow> (\<forall>j<i0. \<not> 0 < vs ! j) \<Longrightarrow>
   first_positive_from k vs = Inr (k + i0)"
proof (induction vs arbitrary: k i0)
  case Nil
  then show ?case by simp
next
  case (Cons v vs)
  show ?case
  proof (cases i0)
    case 0
    with Cons.prems show ?thesis by simp
  next
    case (Suc n)
    from Cons.prems Suc have "\<not> 0 < v" by auto
    moreover have "first_positive_from (Suc k) vs = Inr (Suc k + n)"
      using Cons.prems Suc by (intro Cons.IH) auto
    ultimately show ?thesis using Suc by simp
  qed
qed

lemma fold_max_eq_Max: "fold max xs (x::real) = Max (set (x # xs))"
  using Max.set_eq_fold [of x xs] by simp

lemma array_max_eq_Max: "xs \<noteq> [] \<Longrightarrow> array_max xs = Inr (Max (set xs))"
  using fold_max_eq_Max by (cases xs) (simp_all add: array_max_def)

lemma argmax_from_spec:
  assumes "length pre = i" "bi < i" "pre ! bi = b" "\<forall>j<i. pre ! j \<le> b" "\<forall>j<bi. pre ! j < b"
  shows "argmax_from bi b i xs < length (pre @ xs) \<and>
         (\<forall>j<length (pre @ xs). (pre @ xs) ! j \<le> (pre @ xs) ! argmax_from bi b i xs) \<and>
         (\<forall>j<argmax_from bi b i xs. (pre @ xs) ! j < (pre @ xs) ! argmax_from bi b i xs)"
  using assms
proof (induction xs arbitrary: pre i bi b)
  case Nil
  then show ?case by auto
next
  case (Cons x xs)
  show ?case
  proof (cases "b < x")
    case True
    have "argmax_from i x (Suc i) xs < length ((pre @ [x]) @ xs) \<and>
         (\<forall>j<length ((pre @ [x]) @ xs). ((pre @ [x]) @ xs) ! j \<le> ((pre @ [x]) @ xs) ! argmax_from i x (Suc i) xs) \<and>
         (\<forall>j<argmax_from i x (Suc i) xs. ((pre @ [x]) @ xs) ! j < ((pre @ [x]) @ xs) ! argmax_from i x (Suc i) xs)"
    proof (rule Cons.IH)
      show "length (pre @ [x]) = Suc i" using Cons.prems by simp
      show "i < Suc i" by simp
      show "(pre @ [x]) ! i = x" using Cons.prems(1) by (auto simp: nth_append)
      show "\<forall>j<Suc i. (pre @ [x]) ! j \<le> x"
        using Cons.prems True by (auto simp: nth_append less_Suc_eq)
      show "\<forall>j<i. (pre @ [x]) ! j < x"
        using Cons.prems True by (auto simp: nth_append)
    qed
    with True show ?thesis by simp
  next
    case False
    have "argmax_from bi b (Suc i) xs < length ((pre @ [x]) @ xs) \<and>
         (\<forall>j<length ((pre @ [x]) @ xs). ((pre @ [x]) @ xs) ! j \<le> ((pre @ [x]) @ xs) ! argmax_from bi b (Suc i) xs) \<and>
         (\<forall>j<argmax_from bi b (Suc i) xs. ((pre @ [x]) @ xs) ! j < ((pre @ [x]) @ xs) ! argmax_from bi b (Suc i) xs)"
    proof (rule Cons.IH)
      show "length (pre @ [x]) = Suc i" using Cons.prems by simp
      show "bi < Suc i" using Cons.prems by simp
      show "(pre @ [x]) ! bi = b" using Cons.prems by (simp add: nth_append)
      show "\<forall>j<Suc i. (pre @ [x]) ! j \<le> b"
        using Cons.prems False by (auto simp: nth_append less_Suc_eq)
      show "\<forall>j<bi. (pre @ [x]) ! j < b"
        using Cons.prems by (auto simp: nth_append)
    qed
    with False show ?thesis by simp
  qed
qed

lemma argmax_first_maximum:
  assumes "idx < length xs" "\<forall>j<length xs. xs ! j \<le> xs ! idx" "\<forall>j<idx. xs ! j < xs ! idx"
  shows "argmax xs = Inr idx"
proof (cases xs)
  case Nil
  with assms show ?thesis by simp
next
  case (Cons x rest)
  let ?r = "argmax_from 0 x 1 rest"
  have spec: "?r < length ([x] @ rest) \<and>
         (\<forall>j<length ([x] @ rest). ([x] @ rest) ! j \<le> ([x] @ rest) ! ?r) \<and>
         (\<forall>j<?r. ([x] @ rest) ! j < ([x] @ rest) ! ?r)"
    by (rule argmax_from_spec) auto
  then have r: "?r < length xs" "\<forall>j<length xs. xs ! j \<le> xs ! ?r" "\<forall>j<?r. xs ! j < xs ! ?r"
    using Cons by auto
  have "?r = idx"
  proof (rule ccontr)
    assume "?r \<noteq> idx"
    then consider "?r < idx" | "idx < ?r" by linarith
    then show False
    proof cases
      case 1
      then have "xs ! ?r < xs ! idx" using assms(3) by blast
      moreover have "xs ! idx \<le> xs ! ?r" using r(2) assms(1) by blast
      ultimately show False by simp
    next
      case 2
      then have "xs ! idx < xs ! ?r" using r(3) by blast
      moreover have "xs ! ?r \<le> xs ! idx" using assms(2) r(1) by blast
      ultimately show False by simp
    qed
  qed
  then show ?thesis using Cons by (simp add: argmax_def)
qed

section \<open>Theorems about safe.py\<close>

lemma bkg_invalid_step:
  "and_mask_if (background d \<noteq> None) (make_mask_bkg_invalid d) (\<lambda>p. True) =
     Inr (\<lambda>p. case background d of None \<Rightarrow> True | Some bkg \<Rightarrow> projr (make_mask_bkg_invalid d) p)"
  by (auto simp: and_mask_if_def make_mask_bkg_invalid_def Let_def split: option.splits)

lemma bkg_invalid_step_only_ValueError:
  "only_ValueError (and_mask_if (background d \<noteq> None) (make_mask_bkg_invalid d) acc)"
  by (auto simp: only_ValueError_def and_mask_if_def make_mask_bkg_invalid_def Let_def
      split: option.splits)

lemma offset_max_only_ValueError: "only_ValueError (make_mask_offset_max self d obs)"
  by (simp add: only_ValueError_def make_mask_offset_max_def split: option.splits)

lemma aeff_default_only_ValueError: "only_ValueError (make_mask_energy_aeff_default d obs)"
  by (simp add: only_ValueError_def make_mask_energy_aeff_default_def Let_def
      split: option.splits)

lemma aeff_max_without_observation:
  "fixed_offset self \<noteq> None \<Longrightarrow> make_mask_energy_aeff_max mi self d None = Inl ValueError"
  by (auto simp: make_mask_energy_aeff_max_def aeff_max_position_def)

lemma edisp_bias_without_observation:
  "fixed_offset self \<noteq> None \<Longrightarrow> make_mask_energy_edisp_bias self d None = Inl ValueError"
  by (auto simp: make_mask_energy_edisp_bias_def)

text \<open>
  C2. \<^verbatim>\<open>SafeMaskMaker.run\<close> sets \<^verbatim>\<open>dataset.mask_safe\<close> to the pointwise conjunction of
  the masks of the selected methods, together with the invalid-background mask when the
  dataset has a background: \<^verbatim>\<open>run\<close> returns exactly when every selected method returns
  its mask, and the dataset it returns is the given one with that conjunction as its safe
  mask, so a pixel is safe if and only if every one of these masks keeps it.
\<close>

theorem run_mask_safe_is_conjunction:
  "((\<exists>d'. run mi self d obs = Inr d') \<longleftrightarrow>
      (\<forall>name \<in> set method_order. name \<in> methods self \<longrightarrow>
         \<not> isl (method_mask mi self d obs name))) \<and>
   (\<forall>d'. run mi self d obs = Inr d' \<longrightarrow>
      d' = d\<lparr>mask_safe := Some (selected_conjunction mi self d obs)\<rparr>)"
  unfolding run_def bkg_invalid_step and_then_Inr
  by (auto simp: and_mask_if_cases method_mask_def method_order_def selected_conjunction_def
      conj_assoc split: sum.splits)

text \<open>
  With the methods \<^verbatim>\<open>offset-max\<close> and \<^verbatim>\<open>bkg-peak\<close> on the example dataset, the pixel
  \<open>(2, 1)\<close> is safe; \<open>(1, 1)\<close> is below the background peak, \<open>(2, 2)\<close> has an invalid
  background and \<open>(2, 5)\<close> is beyond the maximum offset.
\<close>

theorem run_mask_safe_is_conjunction_witness:
  "run example_inverse example_maker example_dataset (Some example_observation) =
     Inr (example_dataset\<lparr>mask_safe := Some (selected_conjunction example_inverse example_maker
            example_dataset (Some example_observation))\<rparr>) \<and>
   selected_conjunction example_inverse example_maker example_dataset
     (Some example_observation) (2, 1) \<and>
   \<not> selected_conjunction example_inverse example_maker example_dataset
     (Some example_observation) (1, 1) \<and>
   \<not> selected_conjunction example_inverse example_maker example_dataset
     (Some example_observation) (2, 2) \<and>
   \<not> selected_conjunction example_inverse example_maker example_dataset
     (Some example_observation) (2, 5)"
proof -
  note t = run_mask_safe_is_conjunction [of example_inverse example_maker example_dataset
      "Some example_observation"]
  have om: "\<not> isl (make_mask_offset_max example_maker example_dataset (Some example_observation))"
    by (simp add: make_mask_offset_max_def)
  have am: "argmax [5, 7, 7] = Inr 1"
    by (simp add: argmax_def)
  have bp: "make_mask_energy_bkg_peak example_dataset =
      Inr (energy_mask example_geom (Some 3) None)"
    by (simp add: make_mask_energy_bkg_peak_def example_dataset_def am example_geom_def)
  have "\<forall>name \<in> set method_order. name \<in> methods example_maker \<longrightarrow>
      \<not> isl (method_mask example_inverse example_maker example_dataset
               (Some example_observation) name)"
    using om bp by (simp add: method_order_def method_mask_def example_maker_def)
  with t obtain d' where
    "run example_inverse example_maker example_dataset (Some example_observation) = Inr d'"
    by blast
  with t have r: "run example_inverse example_maker example_dataset (Some example_observation) =
     Inr (example_dataset\<lparr>mask_safe := Some (selected_conjunction example_inverse example_maker
            example_dataset (Some example_observation))\<rparr>)"
    by blast
  have bk: "make_mask_bkg_invalid example_dataset =
      Inr (\<lambda>p. isfinite ((\<lambda>(j, s). if s = 2 then NaN else Finite 1) p) \<and>
               gt_zero ((\<lambda>(j, s). if s = 2 then NaN else Finite 1) p))"
    by (simp add: make_mask_bkg_invalid_def example_dataset_def Let_def)
  have fields: "background example_dataset = Some (\<lambda>(j, s). if s = 2 then NaN else Finite 1)"
    "ds_geom example_dataset = example_geom"
    by (simp_all add: example_dataset_def)
  have sc: "selected_conjunction example_inverse example_maker example_dataset
      (Some example_observation) (j, s) =
      ((s \<noteq> 2) \<and> real s < 3 \<and> 3 \<le> [1, 2, 4, 8 :: real] ! j)" for j s
    by (simp add: selected_conjunction_def method_order_def method_mask_def bp bk fields
        make_mask_offset_max_def example_maker_def example_observation_def
        example_geom_def)
  show ?thesis using r by (simp add: sc)
qed

text \<open>
  C3. \<^verbatim>\<open>make_mask_energy_aeff_max\<close> takes the effective-area spectrum at the chosen
  position, inverts the curve at \<open>aeff_percent / 100\<close> times the maximum of the spectrum,
  between the first energy with a positive effective area (index \<open>i0\<close>) and the first
  energy node, and uses the first element of the inversion as the lower bound of the safe
  energies, unless that is NaN, when the first energy with a positive effective area is
  the bound.
\<close>

theorem aeff_max_threshold_by_inversion:
  assumes pos: "aeff_max_position self d obs = Inr pos"
    and aeff: "aeff = map (\<lambda>x. x / exposure_livetime d) (exposure_get_spectrum d pos)"
    and i0: "i0 < length aeff" "0 < aeff ! i0" "\<forall>j<i0. \<not> 0 < aeff ! j"
    and len: "i0 < length (exposure_energy_true d)"
    and inv: "mi (exposure_energy_true d) aeff (aeff_percent self / 100 * Max (set aeff))
                (exposure_energy_true d ! i0) (exposure_energy_true d ! 0) = r # rest"
  shows "make_mask_energy_aeff_max mi self d obs =
           Inr (energy_mask (ds_geom d)
                  (Some (case r of IsNaN \<Rightarrow> exposure_energy_true d ! i0 | Root x \<Rightarrow> x)) None)"
proof -
  have fp: "first_positive aeff = Inr i0"
    using first_positive_from_spec [OF i0, of 0] by (simp add: first_positive_def)
  have ne: "aeff \<noteq> []" using i0(1) by auto
  have e0: "index (exposure_energy_true d) 0 = Inr (exposure_energy_true d ! 0)"
    using len by (auto simp: index_def)
  have ei: "index (exposure_energy_true d) i0 = Inr (exposure_energy_true d ! i0)"
    using len by (simp add: index_def)
  show ?thesis
    unfolding make_mask_energy_aeff_max_def pos and_then_Inr Let_def aeff [symmetric]
      fp ei e0 array_max_eq_Max [OF ne] inv
    by (simp add: index_def)
qed

text \<open>
  On the example dataset the effective areas are 0, 1 and 4, the threshold is 2/5, and the
  bound is the root 2; with an inversion that yields NaN the bound is the energy 3 of the
  first positive effective area.
\<close>

theorem aeff_max_threshold_by_inversion_witness:
  "make_mask_energy_aeff_max example_inverse example_maker example_dataset None =
     Inr (energy_mask example_geom (Some 2) None) \<and>
   make_mask_energy_aeff_max (\<lambda>energy vals value energy_min energy_max. [IsNaN])
       example_maker example_dataset None =
     Inr (energy_mask example_geom (Some 3) None)"
proof -
  have pos: "aeff_max_position example_maker example_dataset None = Inr (0, 0)"
    by (simp add: aeff_max_position_def example_maker_def example_dataset_def example_geom_def)
  have aeff: "[0, 1, 4] =
      map (\<lambda>x. x / exposure_livetime example_dataset)
        (exposure_get_spectrum example_dataset (0, 0))"
    by (simp add: example_dataset_def)
  have i0: "(1::nat) < length [0, 1, 4 :: real]" "0 < [0, 1, 4 :: real] ! 1"
    "\<forall>j<1::nat. \<not> 0 < [0, 1, 4 :: real] ! j"
    by simp_all
  have len: "1 < length (exposure_energy_true example_dataset)"
    by (simp add: example_dataset_def)
  have mx: "Max (set [0, 1, 4 :: real]) = 4" by simp
  have inv: "example_inverse (exposure_energy_true example_dataset) [0, 1, 4]
      (aeff_percent example_maker / 100 * Max (set [0, 1, 4]))
      (exposure_energy_true example_dataset ! 1) (exposure_energy_true example_dataset ! 0) =
      Root 2 # []"
    unfolding mx by (simp add: example_inverse_def example_maker_def example_dataset_def)
  have inv': "(\<lambda>energy vals value energy_min energy_max. [IsNaN])
      (exposure_energy_true example_dataset) [0, 1, 4]
      (aeff_percent example_maker / 100 * Max (set [0, 1, 4]))
      (exposure_energy_true example_dataset ! 1) (exposure_energy_true example_dataset ! 0) =
      IsNaN # []"
    by simp
  show ?thesis
    using
      aeff_max_threshold_by_inversion [where mi = example_inverse and self = example_maker
        and d = example_dataset and obs = None and pos = "(0, 0)" and aeff = "[0, 1, 4]"
        and ?i0.0 = 1 and r = "Root 2" and rest = "[]", OF pos aeff i0 len inv]
      aeff_max_threshold_by_inversion [where
        mi = "\<lambda>energy vals value energy_min energy_max. [IsNaN]" and self = example_maker
        and d = example_dataset and obs = None and pos = "(0, 0)" and aeff = "[0, 1, 4]"
        and ?i0.0 = 1 and r = IsNaN and rest = "[]", OF pos aeff i0 len inv']
    by (simp add: example_dataset_def)
qed

text \<open>
  C4. The method \<^verbatim>\<open>bkg-peak\<close> takes the first energy bin \<open>idx\<close> in which the
  predicted background is maximal (on a tie the lowest such bin), and the safe energies
  start at the upper edge of that bin. The code passes \<^verbatim>\<open>pix_to_coord(idx)\<close> as the
  minimum energy to \<^verbatim>\<open>energy_mask\<close>; both belong to the maps package, of which the
  theorem assumes that the coordinate of pixel \<open>idx\<close> lies inside bin \<open>idx\<close>, above
  its lower edge, that the edges increase, and that \<^verbatim>\<open>energy_mask\<close> keeps the bins whose
  lower edge is at least the minimum energy. Then the bins kept are those that start at
  or above the upper edge of bin \<open>idx\<close>.
\<close>

theorem bkg_peak_threshold_is_upper_edge_of_first_peak_bin:
  assumes xs: "npred_background_spectrum d = xs"
    and idx: "idx < length xs" "\<forall>j<length xs. xs ! j \<le> xs ! idx" "\<forall>j<idx. xs ! j < xs ! idx"
    and edges: "length (axis_edges (ds_geom d)) = Suc (length xs)"
      "sorted_wrt (<) (axis_edges (ds_geom d))"
    and centre: "axis_edges (ds_geom d) ! idx < pix_to_coord (ds_geom d) idx"
      "pix_to_coord (ds_geom d) idx \<le> axis_edges (ds_geom d) ! Suc idx"
    and emask: "\<forall>e j s. j < length xs \<longrightarrow>
        energy_mask (ds_geom d) (Some e) None (j, s) = (e \<le> axis_edges (ds_geom d) ! j)"
  shows "make_mask_energy_bkg_peak d =
           Inr (energy_mask (ds_geom d) (Some (pix_to_coord (ds_geom d) idx)) None) \<and>
         (\<forall>j<length xs. \<forall>s.
            energy_mask (ds_geom d) (Some (pix_to_coord (ds_geom d) idx)) None (j, s) =
              (axis_edges (ds_geom d) ! Suc idx \<le> axis_edges (ds_geom d) ! j))"
proof -
  let ?es = "axis_edges (ds_geom d)"
  let ?c = "pix_to_coord (ds_geom d) idx"
  have am: "argmax xs = Inr idx" using idx by (rule argmax_first_maximum)
  have made: "make_mask_energy_bkg_peak d = Inr (energy_mask (ds_geom d) (Some ?c) None)"
    by (simp add: make_mask_energy_bkg_peak_def xs am Let_def)
  have mono: "?es ! a < ?es ! b" if "a < b" "b < length ?es" for a b
    using edges(2) that by (simp add: sorted_wrt_iff_nth_less)
  have "(?c \<le> ?es ! j) = (?es ! Suc idx \<le> ?es ! j)" if j: "j < length xs" for j
  proof
    assume le: "?c \<le> ?es ! j"
    have "idx < j"
    proof (rule ccontr)
      assume "\<not> idx < j"
      then have "j \<le> idx" by simp
      then have "?es ! j \<le> ?es ! idx"
        using mono [of j idx] idx(1) edges(1) by (cases "j = idx") auto
      with le centre(1) show False by simp
    qed
    then have "Suc idx \<le> j" by simp
    then show "?es ! Suc idx \<le> ?es ! j"
      using mono [of "Suc idx" j] j edges(1) by (cases "Suc idx = j") auto
  next
    assume "?es ! Suc idx \<le> ?es ! j"
    with centre(2) show "?c \<le> ?es ! j" by simp
  qed
  then show ?thesis using made emask by simp
qed

text \<open>
  On the example dataset the background 5, 7, 7 peaks first in bin 1, whose upper edge is
  4: bin 2 is kept, bins 0 and 1 are not.
\<close>

theorem bkg_peak_threshold_witness:
  "make_mask_energy_bkg_peak example_dataset = Inr (energy_mask example_geom (Some 3) None) \<and>
   energy_mask example_geom (Some 3) None (2, 0) \<and>
   \<not> energy_mask example_geom (Some 3) None (1, 0) \<and>
   \<not> energy_mask example_geom (Some 3) None (0, 0)"
proof -
  have xs: "npred_background_spectrum example_dataset = [5, 7, 7]"
    by (simp add: example_dataset_def)
  have g: "ds_geom example_dataset = example_geom" by (simp add: example_dataset_def)
  have idx: "(1::nat) < length [5, 7, 7 :: real]"
    "\<forall>j<length [5, 7, 7 :: real]. [5, 7, 7 :: real] ! j \<le> [5, 7, 7] ! 1"
    "\<forall>j<1::nat. [5, 7, 7 :: real] ! j < [5, 7, 7] ! 1"
    by (simp_all add: nth_Cons' less_Suc_eq numeral_3_eq_3)
  have edges: "length (axis_edges (ds_geom example_dataset)) = Suc (length [5, 7, 7 :: real])"
    "sorted_wrt (<) (axis_edges (ds_geom example_dataset))"
    by (simp_all add: g example_geom_def)
  have centre: "axis_edges (ds_geom example_dataset) ! 1 < pix_to_coord (ds_geom example_dataset) 1"
    "pix_to_coord (ds_geom example_dataset) 1 \<le> axis_edges (ds_geom example_dataset) ! Suc 1"
    by (simp_all add: g example_geom_def)
  have emask: "\<forall>e j s. j < length [5, 7, 7 :: real] \<longrightarrow>
      energy_mask (ds_geom example_dataset) (Some e) None (j, s) =
        (e \<le> axis_edges (ds_geom example_dataset) ! j)"
    by (simp add: g example_geom_def)
  have c: "pix_to_coord example_geom (Suc 0) = 3" by (simp add: example_geom_def)
  have m: "energy_mask example_geom (Some 3) None (j, s) = (3 \<le> [1, 2, 4, 8 :: real] ! j)" for j s
    by (simp add: example_geom_def)
  show ?thesis
    using bkg_peak_threshold_is_upper_edge_of_first_peak_bin
      [OF xs idx edges centre emask]
    by (simp add: g c m)
qed

text \<open>
  C8, as the code has it. \<^verbatim>\<open>SafeMaskMaker.__init__\<close> first checks the methods, then
  converts the maximum offset with \<^verbatim>\<open>Angle\<close>, then checks the position against the fixed
  offset. So it raises ValueError when the methods are not a subset of the available
  methods; with valid methods it raises whatever \<^verbatim>\<open>Angle(offset_max)\<close> raises; and for a
  maximum offset that \<^verbatim>\<open>Angle\<close> accepts it raises ValueError if and only if the methods
  are not a subset of the available methods or both the position and the fixed offset are
  set, and otherwise constructs the maker from its arguments.
\<close>

theorem init_raises_or_constructs:
  "(\<not> set ms \<subseteq> available_methods \<longrightarrow>
      init Angle ms ap bp pos fo offset_max_arg = Inl ValueError) \<and>
   (\<forall>e. set ms \<subseteq> available_methods \<and> Angle offset_max_arg = Inl e \<longrightarrow>
      init Angle ms ap bp pos fo offset_max_arg = Inl e) \<and>
   (\<forall>om. Angle offset_max_arg = Inr om \<longrightarrow>
      (init Angle ms ap bp pos fo offset_max_arg = Inl ValueError \<longleftrightarrow>
         \<not> set ms \<subseteq> available_methods \<or> (pos \<noteq> None \<and> fo \<noteq> None)) \<and>
      (\<not> (\<not> set ms \<subseteq> available_methods \<or> (pos \<noteq> None \<and> fo \<noteq> None)) \<longrightarrow>
         init Angle ms ap bp pos fo offset_max_arg =
           Inr \<lparr>methods = set ms, aeff_percent = ap, bias_percent = bp, position = pos,
                fixed_offset = fo, offset_max = om\<rparr>))"
  by (simp add: init_def Let_def)

text \<open>
  With the maximum offset \<^verbatim>\<open>3 deg\<close> and neither position nor fixed offset the example
  maker is constructed; with both of them set, with a method that is not available, and
  with the maximum offset \<^verbatim>\<open>abc\<close>, the constructor raises ValueError.
\<close>

theorem init_raises_or_constructs_witness:
  "init example_Angle [''offset-max'', ''bkg-peak''] 10 10 None None ''3 deg'' = Inr example_maker \<and>
   init example_Angle [''offset-max'', ''bkg-peak''] 10 10 (Some (0, 0)) (Some 1) ''3 deg'' =
     Inl ValueError \<and>
   init example_Angle [''no-such-method''] 10 10 None None ''3 deg'' = Inl ValueError \<and>
   init example_Angle [''offset-max'', ''bkg-peak''] 10 10 None None ''abc'' = Inl ValueError"
proof -
  have ok: "example_Angle ''3 deg'' = Inr 3" and bad: "example_Angle ''abc'' = Inl ValueError"
    by (simp_all add: example_Angle_def)
  have sub: "set [''offset-max'', ''bkg-peak''] \<subseteq> available_methods"
    and nsub: "\<not> set [''no-such-method''] \<subseteq> available_methods"
    by (simp_all add: available_methods_def)
  note a = init_raises_or_constructs [where Angle = example_Angle
      and offset_max_arg = "''3 deg''" and ms = "[''offset-max'', ''bkg-peak'']" and ap = 10
      and bp = 10 and pos = None and fo = None, THEN conjunct2, THEN conjunct2, rule_format,
      OF ok, THEN conjunct2, rule_format]
  note b = init_raises_or_constructs [where Angle = example_Angle
      and offset_max_arg = "''3 deg''" and ms = "[''offset-max'', ''bkg-peak'']" and ap = 10
      and bp = 10 and pos = "Some (0, 0)" and fo = "Some 1", THEN conjunct2, THEN conjunct2,
      rule_format, OF ok, THEN conjunct1]
  note c = init_raises_or_constructs [where Angle = example_Angle
      and offset_max_arg = "''3 deg''" and ms = "[''no-such-method'']" and ap = 10
      and bp = 10 and pos = None and fo = None, THEN conjunct1, rule_format, OF nsub]
  note d = init_raises_or_constructs [where Angle = example_Angle
      and offset_max_arg = "''abc''" and ms = "[''offset-max'', ''bkg-peak'']" and ap = 10
      and bp = 10 and pos = None and fo = None, THEN conjunct2, THEN conjunct1, rule_format,
      OF conjI [OF sub bad]]
  have "init example_Angle [''offset-max'', ''bkg-peak''] 10 10 None None ''3 deg'' =
      Inr example_maker"
    using a sub by (simp add: example_maker_def insert_commute)
  moreover have "init example_Angle [''offset-max'', ''bkg-peak''] 10 10 (Some (0, 0)) (Some 1)
      ''3 deg'' = Inl ValueError"
    using b by simp
  ultimately show ?thesis using c d by simp
qed

text \<open>
  C8 as the specification states it lets the construction succeed whenever the methods
  are available and the position and the fixed offset are not both set. With the available
  method \<^verbatim>\<open>aeff-default\<close>, neither position nor fixed offset, and the maximum offset
  \<^verbatim>\<open>abc\<close>, which \<^verbatim>\<open>Angle\<close> rejects with a ValueError, the constructor raises ValueError.
\<close>

theorem init_raises_counterexample:
  "set [''aeff-default''] \<subseteq> available_methods \<and>
   init example_Angle [''aeff-default''] 10 10 None None ''abc'' = Inl ValueError"
  by (simp add: init_def available_methods_def example_Angle_def)

text \<open>
  C9. For a maker with a fixed offset set and \<^verbatim>\<open>aeff-max\<close> or \<^verbatim>\<open>edisp-bias\<close> among
  its methods, \<^verbatim>\<open>run\<close> raises ValueError for every dataset and every observation, a
  valid one included, since \<^verbatim>\<open>run\<close> does not pass the observation on to these two
  methods.
\<close>

theorem run_fixed_offset_raises:
  assumes fo: "fixed_offset self \<noteq> None"
    and sel: "''aeff-max'' \<in> methods self \<or> ''edisp-bias'' \<in> methods self"
  shows "run mi self d obs = Inl ValueError"
proof -
  have later: "and_then (and_mask_if (''aeff-max'' \<in> methods self)
                 (make_mask_energy_aeff_max mi self d None) m3) (\<lambda>m4.
               and_then (and_mask_if (''edisp-bias'' \<in> methods self)
                 (make_mask_energy_edisp_bias self d None) m4) k) = Inl ValueError" for m3 k
    using fo sel
    by (auto simp: and_mask_if_def aeff_max_without_observation edisp_bias_without_observation)
  show ?thesis
    unfolding run_def
    by (intro and_then_only_ValueError bkg_invalid_step_only_ValueError
        and_mask_if_only_ValueError offset_max_only_ValueError aeff_default_only_ValueError
        later)
qed

theorem run_fixed_offset_raises_witness:
  "fixed_offset example_offset_maker \<noteq> None \<and>
   ''aeff-max'' \<in> methods example_offset_maker \<and>
   run example_inverse example_offset_maker example_dataset (Some example_observation) =
     Inl ValueError"
proof -
  have a: "fixed_offset example_offset_maker \<noteq> None"
    and b: "''aeff-max'' \<in> methods example_offset_maker \<or>
            ''edisp-bias'' \<in> methods example_offset_maker"
    by (simp_all add: example_offset_maker_def)
  show ?thesis
    using run_fixed_offset_raises [OF a b, of example_inverse example_dataset
        "Some example_observation"]
    by (simp add: example_offset_maker_def)
qed

section \<open>Theorems about energydependence.py\<close>

lemma set_mask_fit_all_nonempty:
  "datasets \<noteq> [] \<Longrightarrow> energy_edges self \<noteq> [] \<Longrightarrow>
   set_mask_fit_all be self datasets =
     Inr (map (set_mask_fit be (hd (energy_edges self))) datasets)"
  by (cases datasets; cases "energy_edges self") (simp_all add: set_mask_fit_all_def)

lemma length_concat_const:
  "(\<And>x. x \<in> set xs \<Longrightarrow> length (f x) = m) \<Longrightarrow> length (concat (map f xs)) = length xs * m"
  by (induction xs) simp_all

lemma length_make_slices:
  "length (make_slices be self datasets) = (length (energy_edges self) - 1) * length datasets"
  unfolding make_slices_def
  by (subst length_concat_const [where m = "length datasets"]) auto

lemma make_slices_nonempty:
  "datasets \<noteq> [] \<Longrightarrow> 2 \<le> length (energy_edges self) \<Longrightarrow> make_slices be self datasets \<noteq> []"
  using length_make_slices [of be self datasets] by (cases "make_slices be self datasets") auto

lemma hd_make_slices:
  assumes "datasets \<noteq> []" "2 \<le> length (energy_edges self)"
  shows "hd (make_slices be self datasets) =
           slice_by_energy be (hd datasets) (energy_edges self ! 0) (energy_edges self ! 1)"
proof -
  obtain e0 e1 es where es: "energy_edges self = e0 # e1 # es"
    using assms(2) by (cases "energy_edges self"; cases "tl (energy_edges self)") auto
  obtain d ds where ds: "datasets = d # ds" using assms(1) by (cases datasets) auto
  show ?thesis by (cases es) (simp_all add: make_slices_def es ds)
qed

lemma np_shape2_rectangular:
  assumes "rows \<noteq> []" "\<forall>r \<in> set rows. length r = k"
  shows "np_shape2 rows = Inr (length rows, k)"
  using assms by (cases rows) (auto simp: list_all_iff)

lemma sum_list_const_length:
  "\<forall>r \<in> set rows. length r = k \<Longrightarrow>
   (\<Sum>r\<leftarrow>rows. int (length r)) = int (length rows) * int k"
  by (induction rows) (simp_all add: algebra_simps)

lemma make_table_returns:
  assumes "energy_edges self \<noteq> []" "nat (num_energy_bands self) \<le> length results_src"
  shows "\<exists>t. make_table self parameters result_joint results_src = Inr t"
  using assms
  by (cases "energy_edges self") (auto simp: make_table_def Let_def num_energy_bands_def)

lemma estimate_energy_dependence_value:
  assumes ds: "datasets \<noteq> []" and edges: "2 \<le> length (energy_edges self)"
    and slices: "slices = make_slices be self (map (set_mask_fit be (hd (energy_edges self))) datasets)"
    and fits: "fits = map (fit_run be) slices"
    and rect: "\<forall>f \<in> set fits. length (free_parameter_names f) = k"
    and params: "params = spatial_parameter_names be (source self)
                   (map (set_mask_fit be (hd (energy_edges self))) datasets)"
  shows "\<exists>t. estimate_energy_dependence be self datasets =
      Inr (map (set_mask_fit be (hd (energy_edges self))) datasets,
           \<lparr>delta_ts = total_stat (fit_run_joint be params slices) - (\<Sum>f\<leftarrow>fits. total_stat f),
            df = (\<Sum>f\<leftarrow>fits. int (length (free_parameter_names f))) -
                 int (length (joint_free_parameter_names be params slices)),
            result = t\<rparr>)"
proof -
  let ?ds = "map (set_mask_fit be (hd (energy_edges self))) datasets"
  have ne: "energy_edges self \<noteq> []" using edges by auto
  have smf: "set_mask_fit_all be self datasets = Inr ?ds"
    using ds ne by (rule set_mask_fit_all_nonempty)
  have len: "length fits = nat (num_energy_bands self) * length datasets"
    using edges by (simp add: fits slices length_make_slices num_energy_bands_def nat_diff_distrib)
  have "slices \<noteq> []"
    unfolding slices using ds edges by (intro make_slices_nonempty) auto
  then have rows: "map free_parameter_names fits \<noteq> []" by (simp add: fits)
  have rect': "\<forall>r \<in> set (map free_parameter_names fits). length r = k"
    using rect by simp
  have shape: "np_shape2 (map free_parameter_names fits) = Inr (length fits, k)"
    using np_shape2_rectangular [OF rows rect'] by simp
  have total: "(\<Sum>f\<leftarrow>fits. int (length (free_parameter_names f))) = int (length fits) * int k"
    using sum_list_const_length [OF rect'] by (simp add: comp_def)
  have "nat (num_energy_bands self) \<le> length fits"
    using ds unfolding len by (cases datasets) auto
  then obtain t where
    t: "make_table self params (fit_run_joint be params slices) fits = Inr t"
    using make_table_returns [OF ne] by blast
  have "estimate_energy_dependence be self datasets =
      Inr (?ds, \<lparr>delta_ts = total_stat (fit_run_joint be params slices) - (\<Sum>f\<leftarrow>fits. total_stat f),
                 df = int (length fits) * int k -
                      int (length (joint_free_parameter_names be params slices)),
                 result = t\<rparr>)"
    unfolding estimate_energy_dependence_def smf and_then_Inr Let_def
      slices [symmetric] fits [symmetric] shape params [symmetric]
    by (simp add: t)
  then show ?thesis using total by simp
qed

lemma estimate_source_significance_value:
  assumes ds: "datasets \<noteq> []" and edges: "2 \<le> length (energy_edges self)"
    and slices: "slices = make_slices be self (map (set_mask_fit be (hd (energy_edges self))) datasets)"
    and dfv: "dfv = int (length (free_parameter_names (fit_results (test_run be (hd slices))))) - 1"
  shows "estimate_source_significance be self datasets =
      Inr (map (set_mask_fit be (hd (energy_edges self))) datasets,
           \<lparr>src_emin = butlast (energy_edges self),
            src_emax = tl (energy_edges self),
            src_delta_ts = map ts (map (test_run be) slices),
            src_df = replicate (nat (num_energy_bands self)) dfv,
            src_significance = map (\<lambda>t. ts_to_sigma be t dfv) (map ts (map (test_run be) slices))\<rparr>)"
proof -
  let ?ds = "map (set_mask_fit be (hd (energy_edges self))) datasets"
  have ne: "energy_edges self \<noteq> []" using edges by auto
  have smf: "set_mask_fit_all be self datasets = Inr ?ds"
    using ds ne by (rule set_mask_fit_all_nonempty)
  have "slices \<noteq> []"
    unfolding slices using ds edges by (intro make_slices_nonempty) auto
  then obtain s0 rest where sl: "slices = s0 # rest" by (cases slices) auto
  show ?thesis
    unfolding estimate_source_significance_def smf and_then_Inr Let_def slices [symmetric]
    by (simp add: sl index_def dfv)
qed

text \<open>
  C1, as the code has it. The sliced fits are one for every energy band and every dataset
  of the input, \<open>n\<close> times \<open>m\<close> fits for \<open>n\<close> bands and \<open>m\<close> datasets. When there is
  at least one dataset and one band and the sliced fits all report the same number of free
  parameters, \<^verbatim>\<open>estimate_energy_dependence\<close> returns, with \<^verbatim>\<open>delta_ts\<close> the total
  statistic of the joint fit minus the sum of the total statistics of all sliced fits, and
  \<^verbatim>\<open>df\<close> the number of free parameters summed over all sliced fits minus the number of
  free parameters of the joint fit.
\<close>

theorem estimate_energy_dependence_delta_ts_df:
  assumes ds: "datasets \<noteq> []" and edges: "2 \<le> length (energy_edges self)"
    and slices: "slices = make_slices be self (map (set_mask_fit be (hd (energy_edges self))) datasets)"
    and fits: "fits = map (fit_run be) slices"
    and rect: "\<forall>f \<in> set fits. length (free_parameter_names f) = k"
    and params: "params = spatial_parameter_names be (source self)
                   (map (set_mask_fit be (hd (energy_edges self))) datasets)"
  shows "\<exists>ds' r. estimate_energy_dependence be self datasets = Inr (ds', r) \<and>
           length fits = nat (num_energy_bands self) * length datasets \<and>
           delta_ts r = total_stat (fit_run_joint be params slices) - (\<Sum>f\<leftarrow>fits. total_stat f) \<and>
           df r = (\<Sum>f\<leftarrow>fits. int (length (free_parameter_names f))) -
                  int (length (joint_free_parameter_names be params slices))"
proof -
  have len: "length fits = nat (num_energy_bands self) * length datasets"
    using edges by (simp add: fits slices length_make_slices num_energy_bands_def nat_diff_distrib)
  from estimate_energy_dependence_value [OF ds edges slices fits rect params]
  show ?thesis using len by auto
qed

text \<open>
  Two datasets and one energy band: the sliced fits have the statistics 3 and 4 and two
  free parameters each, the joint fit has the statistic 10 and three free parameters.
\<close>

theorem estimate_energy_dependence_witness:
  "\<not> isl (estimate_energy_dependence example_backend example_estimator [1, 2]) \<and>
   delta_ts (snd (projr (estimate_energy_dependence example_backend example_estimator [1, 2]))) =
     10 - (3 + 4) \<and>
   df (snd (projr (estimate_energy_dependence example_backend example_estimator [1, 2]))) =
     (2 + 2) - 3"
proof -
  have sl: "[(1, 1), (2, 1)] =
      make_slices example_backend example_estimator
        (map (set_mask_fit example_backend (hd (energy_edges example_estimator))) [1, 2])"
    by (simp add: make_slices_def example_backend_def example_estimator_def)
  have fits: "[example_fit 3, example_fit 4] = map (fit_run example_backend) [(1, 1), (2, 1)]"
    by (simp add: example_backend_def)
  have rect: "\<forall>f \<in> set [example_fit 3, example_fit 4]. length (free_parameter_names f) = 2"
    by (simp add: example_fit_def)
  have params: "[''sigma''] = spatial_parameter_names example_backend (source example_estimator)
      (map (set_mask_fit example_backend (hd (energy_edges example_estimator))) [1, 2])"
    by (simp add: example_backend_def)
  have "[1, 2 :: nat] \<noteq> []" "2 \<le> length (energy_edges example_estimator)"
    by (simp_all add: example_estimator_def)
  from estimate_energy_dependence_delta_ts_df [OF this sl fits rect params]
  show ?thesis by (auto simp: example_backend_def example_fit_def)
qed

text \<open>
  C1 as the specification states it speaks of the \<open>n\<close> sliced fits of \<open>n\<close> energy bands.
  With one band and two datasets there are two sliced fits, and \<^verbatim>\<open>delta_ts\<close> is the
  joint statistic minus the sum over both, not the joint statistic minus that of one fit.
\<close>

theorem estimate_energy_dependence_counterexample:
  "num_energy_bands example_estimator = 1 \<and>
   map total_stat (map (fit_run example_backend)
      (make_slices example_backend example_estimator [1, 2])) = [3, 4] \<and>
   total_stat (fit_run_joint example_backend [''sigma'']
      (make_slices example_backend example_estimator [1, 2])) = 10 \<and>
   \<not> isl (estimate_energy_dependence example_backend example_estimator [1, 2]) \<and>
   delta_ts (snd (projr (estimate_energy_dependence example_backend example_estimator [1, 2]))) =
     10 - (3 + 4) \<and>
   delta_ts (snd (projr (estimate_energy_dependence example_backend example_estimator [1, 2]))) \<noteq>
     10 - 3 \<and>
   delta_ts (snd (projr (estimate_energy_dependence example_backend example_estimator [1, 2]))) \<noteq>
     10 - 4"
proof -
  have sl: "make_slices example_backend example_estimator [1, 2] = [(1, 1), (2, 1)]"
    by (simp add: make_slices_def example_backend_def example_estimator_def)
  have smf: "set_mask_fit_all example_backend example_estimator [1, 2] = Inr [1, 2]"
    by (simp add: set_mask_fit_all_def example_backend_def example_estimator_def)
  have fits: "map (fit_run example_backend) [(1, 1), (2, 1)] = [example_fit 3, example_fit 4]"
    by (simp add: example_backend_def)
  have shape: "np_shape2 (map free_parameter_names [example_fit 3, example_fit 4]) = Inr (2, 2)"
    by (simp add: example_fit_def)
  have ext: "spatial_parameter_names example_backend (source example_estimator) [1, 2] = [''sigma'']"
    "fit_run_joint example_backend [''sigma''] [(1, 1), (2, 1)] = example_fit 10"
    by (simp_all add: example_backend_def)
  have n: "num_energy_bands example_estimator = 1"
    by (simp add: num_energy_bands_def example_estimator_def)
  have ne: "energy_edges example_estimator \<noteq> []"
    by (simp add: example_estimator_def)
  have le: "nat (num_energy_bands example_estimator) \<le> length [example_fit 3, example_fit 4]"
    by (simp add: n)
  from make_table_returns [OF ne le]
  obtain t where t: "make_table example_estimator [''sigma''] (example_fit 10)
      [example_fit 3, example_fit 4] = Inr t"
    by blast
  have e: "estimate_energy_dependence example_backend example_estimator [1, 2] =
      Inr ([1, 2], \<lparr>delta_ts = total_stat (example_fit 10) -
                       sum_list (map total_stat [example_fit 3, example_fit 4]),
                    df = int 2 * int 2 - int (length (joint_free_parameter_names example_backend
                           [''sigma''] [(1, 1), (2, 1)])),
                    result = t\<rparr>)"
    unfolding estimate_energy_dependence_def smf and_then_Inr Let_def sl fits shape ext
    by (simp add: t)
  show ?thesis
    unfolding e sl fits ext by (simp add: n example_fit_def)
qed

text \<open>
  C5. \<^verbatim>\<open>estimate_source_significance\<close> reports the same degrees of freedom for every
  energy band: the number of free parameters in the fit result of the nested test of the
  first energy band (on the first dataset) minus one, the degree of freedom of the
  background; and every significance is computed from its \<^verbatim>\<open>delta_ts\<close> with that number
  of degrees of freedom. This when there is at least one dataset and one band; the
  function then returns.
\<close>

theorem estimate_source_significance_shared_df:
  assumes ds: "datasets \<noteq> []" and edges: "2 \<le> length (energy_edges self)"
    and first: "first_test = test_run be (slice_by_energy be
                  (set_mask_fit be (energy_edges self ! 0) (hd datasets))
                  (energy_edges self ! 0) (energy_edges self ! 1))"
    and dfv: "dfv = int (length (free_parameter_names (fit_results first_test))) - 1"
  shows "\<exists>ds' r. estimate_source_significance be self datasets = Inr (ds', r) \<and>
           src_df r = replicate (nat (num_energy_bands self)) dfv \<and>
           length (src_df r) = length (energy_edges self) - 1 \<and>
           src_delta_ts r = map ts (map (test_run be) (make_slices be self ds')) \<and>
           src_significance r = map (\<lambda>t. ts_to_sigma be t dfv) (src_delta_ts r)"
proof -
  let ?ds = "map (set_mask_fit be (hd (energy_edges self))) datasets"
  have ne: "?ds \<noteq> []" using ds by simp
  have e0: "hd (energy_edges self) = energy_edges self ! 0"
    using edges by (cases "energy_edges self") auto
  have "hd (make_slices be self ?ds) = slice_by_energy be (hd ?ds)
      (energy_edges self ! 0) (energy_edges self ! 1)"
    using ne edges by (rule hd_make_slices)
  then have "dfv = int (length (free_parameter_names (fit_results (test_run be
      (hd (make_slices be self ?ds)))))) - 1"
    using ds by (simp add: dfv first hd_map e0)
  from estimate_source_significance_value [OF ds edges refl this]
  show ?thesis using edges by (simp add: num_energy_bands_def nat_diff_distrib)
qed

text \<open>
  Two datasets and two energy bands, with tests that differ from band to band: the fits of
  the tests have 3 free parameters in the first band and 5 in the second, and the
  statistics are 25, 26, 11 and 12. Both bands report \<open>3 - 1 = 2\<close> degrees of freedom, not
  2 and 4, and every significance is its statistic divided by 2.
\<close>

theorem estimate_source_significance_witness:
  "\<not> isl (estimate_source_significance example_band_backend example_band_estimator [1, 2]) \<and>
   map (\<lambda>s. int (length (free_parameter_names (fit_results (test_run example_band_backend s)))))
     (make_slices example_band_backend example_band_estimator [1, 2]) = [3, 3, 5, 5] \<and>
   src_df (snd (projr (estimate_source_significance example_band_backend example_band_estimator
     [1, 2]))) = [3 - 1, 3 - 1] \<and>
   src_delta_ts (snd (projr (estimate_source_significance example_band_backend
     example_band_estimator [1, 2]))) = [25, 26, 11, 12] \<and>
   src_significance (snd (projr (estimate_source_significance example_band_backend
     example_band_estimator [1, 2]))) = [25 / 2, 26 / 2, 11 / 2, 12 / 2]"
proof -
  have ds: "[1, 2 :: nat] \<noteq> []" and edges: "2 \<le> length (energy_edges example_band_estimator)"
    by (simp_all add: example_band_estimator_def)
  have dfv: "(2::int) = int (length (free_parameter_names (fit_results
      (test_run example_band_backend (slice_by_energy example_band_backend
         (set_mask_fit example_band_backend (energy_edges example_band_estimator ! 0) (hd [1, 2]))
         (energy_edges example_band_estimator ! 0)
         (energy_edges example_band_estimator ! 1)))))) - 1"
    by (simp add: example_band_backend_def example_band_estimator_def example_band_fit_def)
  have sl: "make_slices example_band_backend example_band_estimator [1, 2] =
      [(1, 1), (2, 1), (1, 10), (2, 10)]"
    by (simp add: make_slices_def example_band_backend_def example_band_estimator_def)
  have n: "nat (num_energy_bands example_band_estimator) = 2"
    by (simp add: num_energy_bands_def example_band_estimator_def)
  have smf: "set_mask_fit example_band_backend e d = d" for e d
    by (simp add: example_band_backend_def)
  have tr: "test_run example_band_backend (d, e) =
      \<lparr>ts = (if e = 1 then 24 else 10) + real d, fit_results = example_band_fit e\<rparr>" for d e
    by (simp add: example_band_backend_def)
  have sg: "ts_to_sigma example_band_backend t dof = t / real_of_int dof" for t dof
    by (simp add: example_band_backend_def)
  from estimate_source_significance_shared_df [OF ds edges refl dfv]
  obtain ds' r where
    r: "estimate_source_significance example_band_backend example_band_estimator [1, 2] =
          Inr (ds', r)"
      "src_df r = replicate (nat (num_energy_bands example_band_estimator)) 2"
      "src_delta_ts r = map ts (map (test_run example_band_backend)
         (make_slices example_band_backend example_band_estimator ds'))"
      "src_significance r = map (\<lambda>t. ts_to_sigma example_band_backend t 2) (src_delta_ts r)"
    by (elim exE conjE)
  have eq: "ds' = [1, 2]"
    using r(1) by (simp add: estimate_source_significance_def set_mask_fit_all_def
        example_band_estimator_def smf and_then_def Let_def split: sum.splits)
  have c: "map (\<lambda>s. int (length (free_parameter_names (fit_results
        (test_run example_band_backend s)))))
      (make_slices example_band_backend example_band_estimator [1, 2]) = [3, 3, 5, 5]"
    unfolding sl by (simp add: tr example_band_fit_def)
  have d: "src_delta_ts r = [25, 26, 11, 12]"
    unfolding r(3) eq sl by (simp add: tr)
  have s: "src_significance r = [25 / 2, 26 / 2, 11 / 2, 12 / 2]"
    unfolding r(4) d by (simp add: sg)
  have f: "src_df r = [2, 2]"
    unfolding r(2) n by (simp add: numeral_2_eq_2)
  show ?thesis
    unfolding r(1) c by (simp add: d s f)
qed

lemma run_estimator_returns:
  fixes be :: "('d, 's) backend"
  assumes run: "run_estimator be self (Datasets datasets :: ('d, 'x) run_input) = Inr r"
  shows "\<exists>ds1 e ds2 s.
         estimate_energy_dependence be self datasets = Inr (ds1, e) \<and>
         estimate_source_significance be self ds1 = Inr (ds2, s) \<and>
         r = [(''energy_dependence'', EnergyDependence e), (''src_above_bkg'', SrcAboveBkg s)]"
proof (cases "estimate_energy_dependence be self datasets")
  case (Inl err)
  with run show ?thesis by (simp add: run_estimator_def)
next
  case first: (Inr p)
  obtain ds1 e where p: "p = (ds1, e)" by (cases p)
  show ?thesis
  proof (cases "estimate_source_significance be self ds1")
    case (Inl err)
    with run first p show ?thesis by (simp add: run_estimator_def)
  next
    case second: (Inr q)
    obtain ds2 s where q: "q = (ds2, s)" by (cases q)
    have "r = [(''energy_dependence'', EnergyDependence e), (''src_above_bkg'', SrcAboveBkg s)]"
      using run by (simp add: run_estimator_def first p second q)
    then show ?thesis
      by (intro exI [of _ ds1] exI [of _ e] exI [of _ ds2] exI [of _ s])
        (simp add: first p second q)
  qed
qed

lemma run_estimator_on_datasets:
  fixes be :: "('d, 's) backend"
  assumes ds: "datasets \<noteq> []" and edges: "2 \<le> length (energy_edges self)"
    and rect: "\<forall>f \<in> set (map (fit_run be) (make_slices be self
           (map (set_mask_fit be (hd (energy_edges self))) datasets))).
         length (free_parameter_names f) = k"
  shows "\<exists>r. run_estimator be self (Datasets datasets :: ('d, 'x) run_input) = Inr r \<and>
           map fst r = [''energy_dependence'', ''src_above_bkg'']"
proof -
  let ?ds = "map (set_mask_fit be (hd (energy_edges self))) datasets"
  have "\<exists>e. estimate_energy_dependence be self datasets = Inr (?ds, e)"
    using estimate_energy_dependence_value [OF ds edges refl refl rect refl]
    by (elim exE) (rule exI)
  then obtain e where e: "estimate_energy_dependence be self datasets = Inr (?ds, e)" ..
  have ne: "?ds \<noteq> []" using ds by simp
  have "\<exists>s. estimate_source_significance be self ?ds = Inr (map (set_mask_fit be
      (hd (energy_edges self))) ?ds, s)"
    by (rule exI, rule estimate_source_significance_value [OF ne edges refl refl])
  then obtain s where
    s: "estimate_source_significance be self ?ds =
          Inr (map (set_mask_fit be (hd (energy_edges self))) ?ds, s)" ..
  have "run_estimator be self (Datasets datasets :: ('d, 'x) run_input) =
      Inr [(''energy_dependence'', EnergyDependence e), (''src_above_bkg'', SrcAboveBkg s)]"
    by (simp add: run_estimator_def e s)
  then show ?thesis by simp
qed

lemma np_shape2_Inr_rectangular:
  "np_shape2 rows = Inr (a, b) \<Longrightarrow> rows \<noteq> [] \<and> (\<forall>r \<in> set rows. length r = b)"
  by (cases rows) (auto simp: list_all_iff split: if_splits)

lemma set_mask_fit_all_Inr:
  "set_mask_fit_all be self datasets = Inr ds' \<Longrightarrow>
   ds' = map (set_mask_fit be (hd (energy_edges self))) datasets"
  by (auto simp: set_mask_fit_all_def split: list.splits)

lemma estimate_energy_dependence_raises:
  assumes bad: "datasets = [] \<or> length (energy_edges self) < 2 \<or>
     \<not> (\<exists>k. \<forall>f \<in> set (map (fit_run be) (make_slices be self
           (map (set_mask_fit be (hd (energy_edges self))) datasets))).
         length (free_parameter_names f) = k)"
  shows "isl (estimate_energy_dependence be self datasets)"
proof (cases "set_mask_fit_all be self datasets")
  case (Inl e)
  then show ?thesis by (simp add: estimate_energy_dependence_def)
next
  case (Inr ds')
  let ?ds = "map (set_mask_fit be (hd (energy_edges self))) datasets"
  let ?fits = "map (fit_run be) (make_slices be self ?ds)"
  have smf: "set_mask_fit_all be self datasets = Inr ?ds"
    using Inr set_mask_fit_all_Inr [OF Inr] by simp
  have "isl (np_shape2 (map free_parameter_names ?fits))"
  proof (cases "np_shape2 (map free_parameter_names ?fits)")
    case (Inl e)
    then show ?thesis by simp
  next
    case shape: (Inr p)
    obtain a b where p: "p = (a, b)" by (cases p)
    note rect = np_shape2_Inr_rectangular [OF shape [unfolded p]]
    from rect have "make_slices be self ?ds \<noteq> []" by simp
    then have ok: "datasets \<noteq> []" "\<not> length (energy_edges self) < 2"
      using length_make_slices [of be self ?ds] by auto
    have "\<exists>k. \<forall>f \<in> set ?fits. length (free_parameter_names f) = k"
      using rect by (intro exI [of _ b]) simp
    with ok bad have False by blast
    then show ?thesis ..
  qed
  then obtain e where e: "np_shape2 (map free_parameter_names ?fits) = Inl e"
    by (cases "np_shape2 (map free_parameter_names ?fits)") simp_all
  show ?thesis
    unfolding estimate_energy_dependence_def smf and_then_Inr Let_def e and_then_Inl by simp
qed

lemma run_estimator_raises:
  fixes be :: "('d, 's) backend"
  assumes bad: "datasets = [] \<or> length (energy_edges self) < 2 \<or>
     \<not> (\<exists>k. \<forall>f \<in> set (map (fit_run be) (make_slices be self
           (map (set_mask_fit be (hd (energy_edges self))) datasets))).
         length (free_parameter_names f) = k)"
  shows "isl (run_estimator be self (Datasets datasets :: ('d, 'x) run_input))"
proof -
  from estimate_energy_dependence_raises [OF bad]
  obtain e where "estimate_energy_dependence be self datasets = Inl e"
    by (cases "estimate_energy_dependence be self datasets") simp_all
  then show ?thesis by (simp add: run_estimator_def)
qed




end
